theory Spec2Isabelle
  imports Complex_Main
begin

section \<open>JavaScript values as the client sees them\<close>

text \<open>
  The client (src/src/App.jsx) only ever stores, compares with \<open>===\<close> and tests for
  truthiness the values it reads from parsed JSON bodies and socket payloads. A value is
  therefore a primitive or an opaque object reference. Two references are \<open>===\<close> exactly when
  they are the same reference, and JSON has no NaN, so \<open>===\<close> is equality of \<open>jsval\<close>.
  An object is its property lookup: a property that is absent reads as \<open>undefined\<close>.
\<close>

datatype jsval = JUndefined | JNull | JBool bool | JNum real | JStr string | JRef nat

type_synonym js_obj = "string \<Rightarrow> jsval"

text \<open>The truthiness test behind \<open>!!v\<close>, \<open>v ? a : b\<close> and \<open>v || d\<close>.\<close>

fun truthy :: "jsval \<Rightarrow> bool" where
  "truthy JUndefined = False"
| "truthy JNull = False"
| "truthy (JBool b) = b"
| "truthy (JNum n) = (n \<noteq> 0)"
| "truthy (JStr s) = (s \<noteq> [])"
| "truthy (JRef r) = True"

text \<open>The object literal \<open>{}\<close>: every property reads as undefined.\<close>

definition empty_obj :: js_obj where
  "empty_obj = (\<lambda>k. JUndefined)"

text \<open>
  What an awaited chain \<open>fetch(...)\<close>, \<open>res.json()\<close>, \<open>data.prop\<close> comes to: either some step
  throws (the promise rejects, the body is not JSON, or the body is \<open>null\<close> so that reading a
  property of it throws), or \<open>data\<close> is a value whose properties can be read.
\<close>

datatype outcome = Threw | Json js_obj

section \<open>StudentView\<close>

datatype js_file = File string

text \<open>The six \<open>useState\<close> cells of StudentView (lines 126-131).\<close>

record student_view =
  consented :: bool
  sessionId :: string
  status :: string
  distance :: jsval
  allowed :: bool
  file_cell :: "js_file option"

definition StudentView_init :: student_view where
  "StudentView_init =
     \<lparr>consented = False, sessionId = [], status = ''idle'', distance = JNull,
      allowed = False, file_cell = None\<rparr>"

text \<open>
  \<open>pingLocation\<close> (lines 140-157) runs in two parts: the synchronous part up to the first
  \<open>await\<close> sets the status to \<open>checking\<close>; the rest runs when the \<open>try\<close> block has either
  produced \<open>data\<close> or thrown (the geolocation read is inside the \<open>try\<close> as well).
\<close>

definition pingLocation_begin :: "student_view \<Rightarrow> student_view" where
  "pingLocation_begin s = s\<lparr>status := ''checking''\<rparr>"

definition pingLocation_settle :: "outcome \<Rightarrow> student_view \<Rightarrow> student_view" where
  "pingLocation_settle r s =
     (case r of
        Json data \<Rightarrow>
          s\<lparr>allowed := truthy (data ''allowed''),
            distance := data ''distanceMeters'',
            status := (if truthy (data ''allowed'') then ''allowed'' else ''too-far'')\<rparr>
      | Threw \<Rightarrow> s\<lparr>status := ''loc-error''\<rparr>)"

definition pingLocation :: "outcome \<Rightarrow> student_view \<Rightarrow> student_view" where
  "pingLocation r s = pingLocation_settle r (pingLocation_begin s)"

text \<open>
  \<open>upload\<close> (lines 159-168): without a file it returns at once; otherwise it posts the file
  to the selfie endpoint of the session, and when the response arrives it sets the status
  only if the body's \<open>status\<close> is the string \<open>uploaded\<close>. There is no \<open>try\<close>: a throw leaves
  every cell as it was.
\<close>

datatype selfie_request = SelfiePost string js_file

definition upload_fire :: "student_view \<Rightarrow> selfie_request option" where
  "upload_fire s =
     (case file_cell s of None \<Rightarrow> None | Some f \<Rightarrow> Some (SelfiePost (sessionId s) f))"

definition upload_settle :: "outcome \<Rightarrow> student_view \<Rightarrow> student_view" where
  "upload_settle r s =
     (case r of
        Json data \<Rightarrow> if data ''status'' = JStr ''uploaded'' then s\<lparr>status := ''uploaded''\<rparr> else s
      | Threw \<Rightarrow> s)"

definition upload :: "outcome \<Rightarrow> student_view \<Rightarrow> student_view" where
  "upload r s = (case upload_fire s of None \<Rightarrow> s | Some req \<Rightarrow> upload_settle r s)"

text \<open>What the JSX of StudentView renders (lines 181-191).\<close>

definition shows_checking :: "student_view \<Rightarrow> bool" where
  "shows_checking s = (status s = ''checking'')"

definition shows_too_far :: "student_view \<Rightarrow> bool" where
  "shows_too_far s = (status s = ''too-far'')"

definition shows_loc_error :: "student_view \<Rightarrow> bool" where
  "shows_loc_error s = (status s = ''loc-error'')"

definition upload_controls_rendered :: "student_view \<Rightarrow> bool" where
  "upload_controls_rendered s = allowed s"

definition upload_button_enabled :: "student_view \<Rightarrow> bool" where
  "upload_button_enabled s = (file_cell s \<noteq> None)"

definition shows_upload_successful :: "student_view \<Rightarrow> bool" where
  "shows_upload_successful s = (allowed s \<and> status s = ''uploaded'')"

text \<open>
  StudentView as an event machine. The user can type a session id, accept the consent
  dialog (rendered while \<open>consented\<close> is false, line 172), press "Check distance"
  (always rendered, line 179) or "Retry" (rendered in the too-far banner, line 182), choose
  a file and press "Upload" (both rendered only inside \<open>{allowed && ...}\<close>, lines 184-191;
  the button is disabled without a file). The two asynchronous calls settle later, in any
  order. An event whose control is not rendered cannot occur and is modelled as leaving
  the state as it is. Settling events are accepted in every state, which only adds runs.
\<close>

datatype student_event =
    TypeSessionId string
  | AcceptConsent
  | ClickCheckDistance
  | ClickRetry
  | PingSettled outcome
  | ChooseFile "js_file option"
  | ClickUpload
  | UploadSettled outcome

definition student_step :: "student_view \<Rightarrow> student_event \<Rightarrow> student_view" where
  "student_step s e =
     (case e of
        TypeSessionId x \<Rightarrow> s\<lparr>sessionId := x\<rparr>
      | AcceptConsent \<Rightarrow> if consented s then s else s\<lparr>consented := True\<rparr>
      | ClickCheckDistance \<Rightarrow> pingLocation_begin s
      | ClickRetry \<Rightarrow> if shows_too_far s then pingLocation_begin s else s
      | PingSettled r \<Rightarrow> pingLocation_settle r s
      | ChooseFile f \<Rightarrow> if upload_controls_rendered s then s\<lparr>file_cell := f\<rparr> else s
      | ClickUpload \<Rightarrow> s
      | UploadSettled r \<Rightarrow> upload_settle r s)"

text \<open>The selfie request, if any, that an event sends when it occurs in state \<open>s\<close>.\<close>

definition student_fires :: "student_view \<Rightarrow> student_event \<Rightarrow> selfie_request option" where
  "student_fires s e =
     (case e of
        ClickUpload \<Rightarrow>
          if upload_controls_rendered s \<and> upload_button_enabled s then upload_fire s else None
      | _ \<Rightarrow> None)"

definition student_run :: "student_view \<Rightarrow> student_event list \<Rightarrow> student_view" where
  "student_run s evs = foldl student_step s evs"

text \<open>
  The \<open>allowed\<close> of the most recent proximity result among the events, read from the
  events alone: the last ping that produced a body decides; false when there is none.
\<close>

fun ping_result :: "student_event \<Rightarrow> bool option" where
  "ping_result (PingSettled (Json data)) = Some (truthy (data ''allowed''))"
| "ping_result e = None"

fun last_ping_result :: "student_event list \<Rightarrow> bool option" where
  "last_ping_result [] = None"
| "last_ping_result (e # evs) =
     (case last_ping_result evs of Some b \<Rightarrow> Some b | None \<Rightarrow> ping_result e)"

definition last_ping_allowed :: "student_event list \<Rightarrow> bool" where
  "last_ping_allowed evs = (last_ping_result evs = Some True)"

section \<open>TeacherView\<close>

text \<open>
  \<open>findIndex\<close> of JavaScript arrays: the index of the first element that satisfies the
  test, and -1 when there is none.
\<close>

fun findIndex :: "('a \<Rightarrow> bool) \<Rightarrow> 'a list \<Rightarrow> int" where
  "findIndex P [] = - 1"
| "findIndex P (x # xs) =
     (if P x then 0 else (let r = findIndex P xs in if r < 0 then - 1 else r + 1))"

text \<open>
  The handler of \<open>attendance:uploaded\<close> (lines 49-60): a copy of the list in which the first
  entry with the payload's userId has its status, photoUrl and distance replaced (the
  spread keeps its other properties), or, when no entry has that userId, the list with a
  new entry in front.
\<close>

definition attendance_uploaded :: "js_obj \<Rightarrow> js_obj list \<Rightarrow> js_obj list" where
  "attendance_uploaded payload prev =
     (let next = prev;
          idx = findIndex (\<lambda>x. x ''userId'' = payload ''userId'') next
      in if idx \<ge> 0
         then next[nat idx :=
                (next ! nat idx)(''status'' := JStr ''uploaded'',
                                 ''photoUrl'' := payload ''photoUrl'',
                                 ''distance'' := payload ''distance'')]
         else empty_obj(''userId'' := payload ''userId'',
                        ''status'' := JStr ''uploaded'',
                        ''photoUrl'' := payload ''photoUrl'',
                        ''distance'' := payload ''distance'') # next)"

text \<open>The handler of \<open>attendance:overridden\<close> (lines 61-63).\<close>

definition attendance_overridden :: "js_obj \<Rightarrow> js_obj list \<Rightarrow> js_obj list" where
  "attendance_overridden payload prev =
     map (\<lambda>st. if st ''userId'' = payload ''userId''
               then st(''status'' := payload ''status'') else st) prev"

text \<open>
  The socket has listeners for these two event names only; a message with any other name
  reaches no listener.
\<close>

definition socket_dispatch :: "string \<Rightarrow> js_obj \<Rightarrow> js_obj list \<Rightarrow> js_obj list" where
  "socket_dispatch ev payload prev =
     (if ev = ''attendance:uploaded'' then attendance_uploaded payload prev
      else if ev = ''attendance:overridden'' then attendance_overridden payload prev
      else prev)"

text \<open>The user object that \<open>useAuth\<close> stores at login (line 32), and a position fix.\<close>

record user =
  userId :: string
  role :: string
  name :: string

record coords =
  latitude :: real
  longitude :: real

datatype geo = GeoRejected | GeoPosition coords

text \<open>The body and the bearer token of the request to \<open>/api/session/start\<close> (lines 72-76).\<close>

record start_body =
  teacherId :: string
  lat :: real
  lon :: real
  expiryMinutes :: int
  teacherName :: string

record start_request =
  bearer :: string
  body :: start_body

text \<open>
  The first part of \<open>openSession\<close> (lines 69-76): when the position read rejects, the
  function throws and sends nothing.
\<close>

definition openSession_request :: "string \<Rightarrow> user \<Rightarrow> geo \<Rightarrow> start_request option" where
  "openSession_request token u g =
     (case g of
        GeoRejected \<Rightarrow> None
      | GeoPosition c \<Rightarrow>
          Some \<lparr>bearer = token,
                body = \<lparr>teacherId = userId u, lat = latitude c, lon = longitude c,
                         expiryMinutes = 15, teacherName = name u\<rparr>\<rparr>)"

text \<open>
  The state of TeacherView: the \<open>session\<close> and \<open>students\<close> cells (lines 40-41) and whether
  the effect of lines 44-65 has put a socket with its two listeners in \<open>socketRef\<close>.
\<close>

record teacher_view =
  session :: "js_obj option"
  students :: "js_obj list"
  socket :: bool

definition TeacherView_init :: teacher_view where
  "TeacherView_init = \<lparr>session = None, students = [], socket = False\<rparr>"

text \<open>
  The body of the teacher-view response as line 82 uses it: \<open>tvData.students\<close> is an array
  of entries, or is falsy (absent, null), and then \<open>|| []\<close> applies.
\<close>

datatype roster_outcome = RosterThrew | RosterJson "js_obj list option"

text \<open>
  The rest of \<open>openSession\<close>, in the order of the source. When the start response arrives,
  line 78 sets the session and line 80 sends the teacher-view request; when that response
  arrives, line 82 replaces the students list. A throw ends the function (there is no
  \<open>try\<close>). The effect runs after the render that follows \<open>setSession\<close>.
\<close>

datatype roster_request = TeacherViewGet jsval

definition openSession_started :: "outcome \<Rightarrow> teacher_view \<Rightarrow> teacher_view \<times> roster_request option" where
  "openSession_started r tv =
     (case r of
        Threw \<Rightarrow> (tv, None)
      | Json data \<Rightarrow>
          (tv\<lparr>session := Some (empty_obj(''sessionId'' := data ''sessionId'',
                                          ''startsAt'' := data ''startsAt'',
                                          ''expiresAt'' := data ''expiresAt'',
                                          ''teacherLocation'' := data ''teacherLocation''))\<rparr>,
           Some (TeacherViewGet (data ''sessionId''))))"

definition openSession_snapshot :: "roster_outcome \<Rightarrow> teacher_view \<Rightarrow> teacher_view" where
  "openSession_snapshot r tv =
     (case r of
        RosterThrew \<Rightarrow> tv
      | RosterJson tvs \<Rightarrow> tv\<lparr>students := (case tvs of Some xs \<Rightarrow> xs | None \<Rightarrow> [])\<rparr>)"

definition session_effect :: "teacher_view \<Rightarrow> teacher_view" where
  "session_effect tv = (if session tv = None then tv else tv\<lparr>socket := True\<rparr>)"

definition socket_message :: "string \<Rightarrow> js_obj \<Rightarrow> teacher_view \<Rightarrow> teacher_view" where
  "socket_message ev payload tv =
     (if socket tv then tv\<lparr>students := socket_dispatch ev payload (students tv)\<rparr> else tv)"

datatype teacher_event =
    StartSettled outcome
  | EffectRuns
  | SocketMessage string js_obj
  | SnapshotSettled roster_outcome

definition teacher_step :: "teacher_view \<Rightarrow> teacher_event \<Rightarrow> teacher_view" where
  "teacher_step tv e =
     (case e of
        StartSettled r \<Rightarrow> fst (openSession_started r tv)
      | EffectRuns \<Rightarrow> session_effect tv
      | SocketMessage ev payload \<Rightarrow> socket_message ev payload tv
      | SnapshotSettled r \<Rightarrow> openSession_snapshot r tv)"

definition teacher_run :: "teacher_view \<Rightarrow> teacher_event list \<Rightarrow> teacher_view" where
  "teacher_run tv evs = foldl teacher_step tv evs"

text \<open>The userId of each roster entry, in list order.\<close>

definition userIds :: "js_obj list \<Rightarrow> jsval list" where
  "userIds xs = map (\<lambda>x. x ''userId'') xs"

text \<open>
  The condition on a run that every roster snapshot the server returned had pairwise
  distinct userIds.
\<close>

fun snapshot_distinct :: "teacher_event \<Rightarrow> bool" where
  "snapshot_distinct (SnapshotSettled (RosterJson (Some xs))) = distinct (userIds xs)"
| "snapshot_distinct e = True"

section \<open>Results about StudentView\<close>

text \<open>
  C5: for every response that pingLocation reads successfully, the client stores the
  body's distanceMeters in distance and the truthiness of its allowed in allowed; the
  status becomes 'allowed' when allowed is true and 'too-far' when it is false, and
  'too-far' shows the retry banner, never the location-error banner.
\<close>

theorem pingLocation_stores_measurement:
  "distance (pingLocation (Json data) s) = data ''distanceMeters''
   \<and> allowed (pingLocation (Json data) s) = truthy (data ''allowed'')
   \<and> status (pingLocation (Json data) s)
       = (if truthy (data ''allowed'') then ''allowed'' else ''too-far'')
   \<and> (data ''allowed'' = JBool True \<longrightarrow> status (pingLocation (Json data) s) = ''allowed'')
   \<and> (data ''allowed'' = JBool False \<longrightarrow>
        status (pingLocation (Json data) s) = ''too-far''
        \<and> shows_too_far (pingLocation (Json data) s)
        \<and> \<not> shows_loc_error (pingLocation (Json data) s))"
  by (simp add: pingLocation_def pingLocation_settle_def pingLocation_begin_def
      shows_too_far_def shows_loc_error_def)


theorem pingLocation_stores_measurement_witness:
  "status (pingLocation (Json (empty_obj(''allowed'' := JBool False, ''distanceMeters'' := JNum 55)))
       StudentView_init) = ''too-far''
   \<and> distance (pingLocation (Json (empty_obj(''allowed'' := JBool False, ''distanceMeters'' := JNum 55)))
       StudentView_init) = JNum 55
   \<and> status (pingLocation (Json (empty_obj(''allowed'' := JBool True, ''distanceMeters'' := JNum 3)))
       StudentView_init) = ''allowed''
   \<and> allowed (pingLocation (Json (empty_obj(''allowed'' := JBool True, ''distanceMeters'' := JNum 3)))
       StudentView_init)"
  using pingLocation_stores_measurement
          [of "empty_obj(''allowed'' := JBool False, ''distanceMeters'' := JNum 55)" StudentView_init]
        pingLocation_stores_measurement
          [of "empty_obj(''allowed'' := JBool True, ''distanceMeters'' := JNum 3)" StudentView_init]
  by simp

text \<open>
  C10: a ping whose position read or request throws sets the status to 'loc-error' and
  leaves allowed and distance as they were, so the upload controls are rendered after it
  exactly when they were rendered before it.
\<close>

theorem pingLocation_failure_keeps_window:
  "status (pingLocation Threw s) = ''loc-error''
   \<and> allowed (pingLocation Threw s) = allowed s
   \<and> distance (pingLocation Threw s) = distance s
   \<and> file_cell (pingLocation Threw s) = file_cell s
   \<and> upload_controls_rendered (pingLocation Threw s) = upload_controls_rendered s
   \<and> shows_loc_error (pingLocation Threw s)"
  by (simp add: pingLocation_def pingLocation_settle_def pingLocation_begin_def
      upload_controls_rendered_def shows_loc_error_def)

text \<open>
  C7: upload either applies its whole transition or nothing. Without a selected file, on
  a throw, and for every response whose status is not 'uploaded', the state is unchanged;
  with a file and a response whose status is 'uploaded', the only change is that the
  status becomes 'uploaded'. Distance and allowed never change.
\<close>

theorem upload_atomic:
  "(file_cell s = None \<longrightarrow> upload r s = s)
   \<and> (r = Threw \<longrightarrow> upload r s = s)
   \<and> (\<forall>data. r = Json data \<and> data ''status'' \<noteq> JStr ''uploaded'' \<longrightarrow> upload r s = s)
   \<and> (\<forall>data. r = Json data \<and> data ''status'' = JStr ''uploaded'' \<and> file_cell s \<noteq> None \<longrightarrow>
         upload r s = s\<lparr>status := ''uploaded''\<rparr>)
   \<and> distance (upload r s) = distance s
   \<and> allowed (upload r s) = allowed s"
  by (cases r; cases "file_cell s") (simp_all add: upload_def upload_fire_def upload_settle_def)

theorem upload_atomic_witness:
  "upload (Json (empty_obj(''status'' := JStr ''uploaded''))) StudentView_init = StudentView_init
   \<and> upload Threw (StudentView_init\<lparr>allowed := True, file_cell := Some (File ''me.jpg'')\<rparr>)
       = StudentView_init\<lparr>allowed := True, file_cell := Some (File ''me.jpg'')\<rparr>
   \<and> upload (Json (empty_obj(''status'' := JStr ''rejected'')))
         (StudentView_init\<lparr>allowed := True, file_cell := Some (File ''me.jpg'')\<rparr>)
       = StudentView_init\<lparr>allowed := True, file_cell := Some (File ''me.jpg'')\<rparr>
   \<and> upload (Json (empty_obj(''status'' := JStr ''uploaded'')))
         (StudentView_init\<lparr>allowed := True, file_cell := Some (File ''me.jpg'')\<rparr>)
       = StudentView_init\<lparr>allowed := True, file_cell := Some (File ''me.jpg''),
                          status := ''uploaded''\<rparr>"
  using upload_atomic [of StudentView_init "Json (empty_obj(''status'' := JStr ''uploaded''))"]
        upload_atomic [of "StudentView_init\<lparr>allowed := True, file_cell := Some (File ''me.jpg'')\<rparr>" Threw]
        upload_atomic [of "StudentView_init\<lparr>allowed := True, file_cell := Some (File ''me.jpg'')\<rparr>"
                          "Json (empty_obj(''status'' := JStr ''rejected''))"]
        upload_atomic [of "StudentView_init\<lparr>allowed := True, file_cell := Some (File ''me.jpg'')\<rparr>"
                          "Json (empty_obj(''status'' := JStr ''uploaded''))"]
  by (simp add: StudentView_init_def)

section \<open>The client has no forward-only guard\<close>

text \<open>
  A student passes the proximity check, chooses a file and uploads it; the status is
  'uploaded' and the upload controls are rendered. A later ping that is out of range then
  sets the status to 'too-far' and removes the upload controls.
\<close>

theorem ping_after_upload_counterexample:
  "status (upload (Json (empty_obj(''status'' := JStr ''uploaded'')))
            (student_step
               (pingLocation (Json (empty_obj(''allowed'' := JBool True, ''distanceMeters'' := JNum 3)))
                  StudentView_init)
               (ChooseFile (Some (File ''me.jpg''))))) = ''uploaded''
   \<and> upload_controls_rendered
        (upload (Json (empty_obj(''status'' := JStr ''uploaded'')))
            (student_step
               (pingLocation (Json (empty_obj(''allowed'' := JBool True, ''distanceMeters'' := JNum 3)))
                  StudentView_init)
               (ChooseFile (Some (File ''me.jpg'')))))
   \<and> status (pingLocation (Json (empty_obj(''allowed'' := JBool False, ''distanceMeters'' := JNum 55)))
        (upload (Json (empty_obj(''status'' := JStr ''uploaded'')))
            (student_step
               (pingLocation (Json (empty_obj(''allowed'' := JBool True, ''distanceMeters'' := JNum 3)))
                  StudentView_init)
               (ChooseFile (Some (File ''me.jpg'')))))) = ''too-far''
   \<and> \<not> upload_controls_rendered
        (pingLocation (Json (empty_obj(''allowed'' := JBool False, ''distanceMeters'' := JNum 55)))
        (upload (Json (empty_obj(''status'' := JStr ''uploaded'')))
            (student_step
               (pingLocation (Json (empty_obj(''allowed'' := JBool True, ''distanceMeters'' := JNum 3)))
                  StudentView_init)
               (ChooseFile (Some (File ''me.jpg''))))))"
  by (simp add: pingLocation_def pingLocation_settle_def pingLocation_begin_def upload_def
      upload_fire_def upload_settle_def student_step_def upload_controls_rendered_def
      StudentView_init_def)

text \<open>
  C1 (as the client behaves): a ping whose response has a falsy allowed sets the status
  to 'too-far' and allowed to false from every earlier state, 'uploaded' included, so the
  upload controls and the success message are no longer rendered; distance takes the
  response's distanceMeters.
\<close>

theorem out_of_range_ping_overwrites:
  assumes "\<not> truthy (data ''allowed'')"
  shows "status (pingLocation (Json data) s) = ''too-far''
     \<and> \<not> allowed (pingLocation (Json data) s)
     \<and> \<not> upload_controls_rendered (pingLocation (Json data) s)
     \<and> \<not> shows_upload_successful (pingLocation (Json data) s)
     \<and> distance (pingLocation (Json data) s) = data ''distanceMeters''"
  using assms
  by (simp add: pingLocation_def pingLocation_settle_def pingLocation_begin_def
      upload_controls_rendered_def shows_upload_successful_def)

theorem out_of_range_ping_overwrites_witness:
  "\<not> truthy ((empty_obj(''allowed'' := JBool False, ''distanceMeters'' := JNum 55)) ''allowed'')
   \<and> status (StudentView_init\<lparr>allowed := True, status := ''uploaded''\<rparr>) = ''uploaded''
   \<and> status (pingLocation (Json (empty_obj(''allowed'' := JBool False, ''distanceMeters'' := JNum 55)))
               (StudentView_init\<lparr>allowed := True, status := ''uploaded''\<rparr>)) = ''too-far''
   \<and> \<not> upload_controls_rendered
        (pingLocation (Json (empty_obj(''allowed'' := JBool False, ''distanceMeters'' := JNum 55)))
               (StudentView_init\<lparr>allowed := True, status := ''uploaded''\<rparr>))"
proof -
  have h: "\<not> truthy ((empty_obj(''allowed'' := JBool False, ''distanceMeters'' := JNum 55)) ''allowed'')"
    by simp
  from out_of_range_ping_overwrites
         [of "empty_obj(''allowed'' := JBool False, ''distanceMeters'' := JNum 55)"
             "StudentView_init\<lparr>allowed := True, status := ''uploaded''\<rparr>", OF h] h
  show ?thesis by simp
qed

section \<open>The upload controls follow the most recent proximity result\<close>

lemma last_ping_result_snoc:
  "last_ping_result (evs @ [e]) =
     (case ping_result e of Some b \<Rightarrow> Some b | None \<Rightarrow> last_ping_result evs)"
  by (induction evs) (auto split: option.splits)

lemma allowed_step:
  "allowed (student_step s e) = (case ping_result e of Some b \<Rightarrow> b | None \<Rightarrow> allowed s)"
proof (cases e)
  case (PingSettled r)
  then show ?thesis
    by (cases r) (simp_all add: student_step_def pingLocation_settle_def)
qed (simp_all add: student_step_def pingLocation_begin_def upload_settle_def upload_controls_rendered_def
      split: outcome.splits)

lemma allowed_run:
  "allowed (student_run s evs) =
     (case last_ping_result evs of Some b \<Rightarrow> b | None \<Rightarrow> allowed s)"
proof (induction evs rule: rev_induct)
  case Nil
  then show ?case by (simp add: student_run_def)
next
  case (snoc e evs)
  have "student_run s (evs @ [e]) = student_step (student_run s evs) e"
    by (simp add: student_run_def)
  then show ?case
    using snoc by (simp add: allowed_step last_ping_result_snoc split: option.splits)
qed

lemma last_ping_result_in_set:
  "last_ping_result evs = Some b \<Longrightarrow> \<exists>e\<in>set evs. ping_result e = Some b"
  by (induction evs) (auto split: option.splits)

text \<open>
  C2: after any sequence of events from the initial state, the upload controls are
  rendered exactly when the most recent proximity result had allowed true; an event sends
  a selfie request only then; and while no ping has returned allowed true, the controls
  are not rendered and no event sends a selfie request.
\<close>

theorem upload_gated_by_proximity:
  "upload_controls_rendered (student_run StudentView_init evs) = last_ping_allowed evs
   \<and> (student_fires (student_run StudentView_init evs) e \<noteq> None \<longrightarrow> last_ping_allowed evs)
   \<and> ((\<forall>x\<in>set evs. ping_result x \<noteq> Some True) \<longrightarrow>
        \<not> upload_controls_rendered (student_run StudentView_init evs)
        \<and> student_fires (student_run StudentView_init evs) e = None)"
proof -
  have r: "upload_controls_rendered (student_run StudentView_init evs) = last_ping_allowed evs"
    by (simp add: upload_controls_rendered_def allowed_run last_ping_allowed_def
        StudentView_init_def split: option.splits)
  have f: "student_fires (student_run StudentView_init evs) e \<noteq> None \<Longrightarrow>
      upload_controls_rendered (student_run StudentView_init evs)"
    by (cases e) (simp_all add: student_fires_def split: if_splits)
  have n: "\<forall>x\<in>set evs. ping_result x \<noteq> Some True \<Longrightarrow> \<not> last_ping_allowed evs"
    using last_ping_result_in_set [of evs True] by (auto simp: last_ping_allowed_def)
  show ?thesis using r f n by blast
qed

theorem upload_gated_by_proximity_witness:
  "student_fires
     (student_run StudentView_init
        [ClickCheckDistance,
         PingSettled (Json (empty_obj(''allowed'' := JBool True, ''distanceMeters'' := JNum 3))),
         ChooseFile (Some (File ''me.jpg''))])
     ClickUpload = Some (SelfiePost [] (File ''me.jpg''))
   \<and> last_ping_allowed
        [ClickCheckDistance,
         PingSettled (Json (empty_obj(''allowed'' := JBool True, ''distanceMeters'' := JNum 3))),
         ChooseFile (Some (File ''me.jpg''))]
   \<and> \<not> last_ping_allowed
        [ClickCheckDistance,
         PingSettled (Json (empty_obj(''allowed'' := JBool False, ''distanceMeters'' := JNum 55))),
         ChooseFile (Some (File ''me.jpg''))]
   \<and> student_fires
     (student_run StudentView_init
        [ClickCheckDistance,
         PingSettled (Json (empty_obj(''allowed'' := JBool False, ''distanceMeters'' := JNum 55))),
         ChooseFile (Some (File ''me.jpg''))])
     ClickUpload = None"
  using upload_gated_by_proximity
          [of "[ClickCheckDistance,
         PingSettled (Json (empty_obj(''allowed'' := JBool True, ''distanceMeters'' := JNum 3))),
         ChooseFile (Some (File ''me.jpg''))]" ClickUpload]
        upload_gated_by_proximity
          [of "[ClickCheckDistance,
         PingSettled (Json (empty_obj(''allowed'' := JBool False, ''distanceMeters'' := JNum 55))),
         ChooseFile (Some (File ''me.jpg''))]" ClickUpload]
  by (simp add: student_run_def student_step_def student_fires_def pingLocation_begin_def
      pingLocation_settle_def upload_controls_rendered_def upload_button_enabled_def
      upload_fire_def StudentView_init_def last_ping_allowed_def)




section \<open>Results about TeacherView\<close>

lemma findIndex_ge_minus1: "findIndex P xs \<ge> - 1"
  by (induction xs) (auto simp: Let_def)

lemma findIndex_neg_iff: "findIndex P xs < 0 \<longleftrightarrow> (\<forall>x\<in>set xs. \<not> P x)"
  using findIndex_ge_minus1 [of P]
  by (induction xs) (auto simp: Let_def)

lemma findIndex_found:
  "findIndex P xs \<ge> 0 \<Longrightarrow> nat (findIndex P xs) < length xs \<and> P (xs ! nat (findIndex P xs))"
proof (induction xs)
  case Nil
  then show ?case by simp
next
  case (Cons x xs)
  show ?case
  proof (cases "P x")
    case True
    then show ?thesis by simp
  next
    case False
    with Cons.prems have nn: "findIndex P xs \<ge> 0"
      by (simp add: Let_def split: if_splits)
    with False have eq: "findIndex P (x # xs) = findIndex P xs + 1"
      by (simp add: Let_def)
    from nn have "nat (findIndex P xs + 1) = Suc (nat (findIndex P xs))" by simp
    with Cons.IH [OF nn] eq show ?thesis by simp
  qed
qed

lemma userId_kept:
  "(x(''status'' := a, ''photoUrl'' := b, ''distance'' := c)) ''userId'' = x ''userId''"
  by simp

lemma userIds_uploaded_found:
  assumes "findIndex (\<lambda>x. x ''userId'' = p ''userId'') prev \<ge> 0"
  shows "userIds (attendance_uploaded p prev) = userIds prev"
proof -
  let ?i = "nat (findIndex (\<lambda>x. x ''userId'' = p ''userId'') prev)"
  from findIndex_found [OF assms] have lt: "?i < length prev" by simp
  show ?thesis
    using assms lt
    by (simp add: attendance_uploaded_def userIds_def Let_def map_update list_update_same_conv)
qed

lemma userIds_overridden: "userIds (attendance_overridden p prev) = userIds prev"
  by (induction prev) (simp_all add: attendance_overridden_def userIds_def)

lemma userIds_mem_findIndex:
  "p ''userId'' \<in> set (userIds prev) \<longleftrightarrow>
     findIndex (\<lambda>x. x ''userId'' = p ''userId'') prev \<ge> 0"
proof -
  let ?P = "\<lambda>x. x ''userId'' = p ''userId''"
  have "findIndex ?P prev \<ge> 0 \<longleftrightarrow> (\<exists>x\<in>set prev. ?P x)"
    using findIndex_neg_iff [of ?P prev] by auto
  also have "\<dots> \<longleftrightarrow> p ''userId'' \<in> set (userIds prev)"
    unfolding userIds_def set_map image_iff by metis
  finally show ?thesis by simp
qed

lemma uploaded_absent:
  "p ''userId'' \<notin> set (userIds prev) \<Longrightarrow>
     attendance_uploaded p prev =
       empty_obj(''userId'' := p ''userId'', ''status'' := JStr ''uploaded'',
                 ''photoUrl'' := p ''photoUrl'', ''distance'' := p ''distance'') # prev"
  using userIds_mem_findIndex [of p prev] by (simp add: attendance_uploaded_def Let_def)

lemma uploaded_distinct:
  assumes "distinct (userIds prev)"
  shows "distinct (userIds (attendance_uploaded p prev))"
proof (cases "p ''userId'' \<in> set (userIds prev)")
  case True
  then have "userIds (attendance_uploaded p prev) = userIds prev"
    using userIds_mem_findIndex userIds_uploaded_found by blast
  with assms show ?thesis by simp
next
  case False
  with uploaded_absent [of p prev] assms show ?thesis by (simp add: userIds_def)
qed

lemma dispatch_distinct:
  "distinct (userIds xs) \<Longrightarrow> distinct (userIds (socket_dispatch ev p xs))"
  by (simp add: socket_dispatch_def uploaded_distinct userIds_overridden)

lemma teacher_step_distinct:
  assumes "distinct (userIds (students tv))" and "snapshot_distinct e"
  shows "distinct (userIds (students (teacher_step tv e)))"
proof (cases e)
  case (StartSettled r)
  with assms show ?thesis
    by (cases r) (simp_all add: teacher_step_def openSession_started_def)
next
  case EffectRuns
  with assms show ?thesis by (simp add: teacher_step_def session_effect_def)
next
  case (SocketMessage ev p)
  with assms show ?thesis
    by (simp add: teacher_step_def socket_message_def dispatch_distinct)
next
  case (SnapshotSettled r)
  show ?thesis
  proof (cases r)
    case RosterThrew
    with SnapshotSettled assms show ?thesis
      by (simp add: teacher_step_def openSession_snapshot_def)
  next
    case (RosterJson tvs)
    with SnapshotSettled assms show ?thesis
      by (cases tvs) (simp_all add: teacher_step_def openSession_snapshot_def userIds_def)
  qed
qed

lemma teacher_run_distinct:
  "distinct (userIds (students tv)) \<Longrightarrow> \<forall>e\<in>set evs. snapshot_distinct e \<Longrightarrow>
     distinct (userIds (students (teacher_run tv evs)))"
proof (induction evs arbitrary: tv)
  case Nil
  then show ?case by (simp add: teacher_run_def)
next
  case (Cons e evs)
  from Cons.prems have "distinct (userIds (students (teacher_step tv e)))"
    by (simp add: teacher_step_distinct)
  from Cons.IH [OF this] Cons.prems(2) show ?case by (simp add: teacher_run_def)
qed

text \<open>
  C8: the teacher's roster list never holds two entries with the same userId. When the
  userIds of the list are pairwise distinct, they still are after either handler: the
  handler of 'attendance:uploaded' keeps the userIds and the length when an entry has the
  payload's userId and puts one new entry in front only when none has it, and the handler
  of 'attendance:overridden' keeps the userIds as they are. Hence, from the empty initial
  list, the userIds are pairwise distinct after every run in which each snapshot had
  pairwise distinct userIds.
\<close>

theorem roster_userIds_stay_distinct:
  assumes "distinct (userIds prev)"
  shows "distinct (userIds (attendance_uploaded p prev))
    \<and> distinct (userIds (attendance_overridden p prev))
    \<and> (p ''userId'' \<in> set (userIds prev) \<longrightarrow>
         userIds (attendance_uploaded p prev) = userIds prev
         \<and> length (attendance_uploaded p prev) = length prev)
    \<and> (p ''userId'' \<notin> set (userIds prev) \<longrightarrow>
         attendance_uploaded p prev =
           empty_obj(''userId'' := p ''userId'', ''status'' := JStr ''uploaded'',
                     ''photoUrl'' := p ''photoUrl'', ''distance'' := p ''distance'') # prev)
    \<and> userIds (attendance_overridden p prev) = userIds prev
    \<and> ((\<forall>e\<in>set evs. snapshot_distinct e) \<longrightarrow>
         distinct (userIds (students (teacher_run TeacherView_init evs))))"
proof -
  have a: "p ''userId'' \<in> set (userIds prev) \<Longrightarrow>
      userIds (attendance_uploaded p prev) = userIds prev"
    using userIds_mem_findIndex userIds_uploaded_found by blast
  have len: "p ''userId'' \<in> set (userIds prev) \<Longrightarrow>
      length (attendance_uploaded p prev) = length prev"
    using userIds_mem_findIndex [of p prev] by (simp add: attendance_uploaded_def Let_def)
  have r: "\<forall>e\<in>set evs. snapshot_distinct e \<Longrightarrow>
      distinct (userIds (students (teacher_run TeacherView_init evs)))"
    by (rule teacher_run_distinct) (simp_all add: TeacherView_init_def userIds_def)
  show ?thesis
    using a len r uploaded_absent [of p prev] uploaded_distinct [OF assms, of p] assms
      userIds_overridden [of p prev]
    by simp
qed

theorem roster_userIds_stay_distinct_witness:
  "distinct (userIds [empty_obj(''userId'' := JStr ''s1'')])
   \<and> distinct (userIds (attendance_uploaded (empty_obj(''userId'' := JStr ''s2''))
                          [empty_obj(''userId'' := JStr ''s1'')]))
   \<and> length (attendance_uploaded (empty_obj(''userId'' := JStr ''s2''))
               [empty_obj(''userId'' := JStr ''s1'')]) = 2
   \<and> distinct (userIds (attendance_uploaded (empty_obj(''userId'' := JStr ''s1''))
                          [empty_obj(''userId'' := JStr ''s1'')]))
   \<and> length (attendance_uploaded (empty_obj(''userId'' := JStr ''s1''))
               [empty_obj(''userId'' := JStr ''s1'')]) = 1
   \<and> distinct (userIds (students (teacher_run TeacherView_init
        [StartSettled (Json (empty_obj(''sessionId'' := JStr ''sess_1''))),
         EffectRuns,
         SnapshotSettled (RosterJson (Some [empty_obj(''userId'' := JStr ''s1'')])),
         SocketMessage ''attendance:uploaded'' (empty_obj(''userId'' := JStr ''s1'')),
         SocketMessage ''attendance:uploaded'' (empty_obj(''userId'' := JStr ''s2''))])))"
  using roster_userIds_stay_distinct
          [of "[empty_obj(''userId'' := JStr ''s1'')]" "empty_obj(''userId'' := JStr ''s2'')"
              "[StartSettled (Json (empty_obj(''sessionId'' := JStr ''sess_1''))),
                EffectRuns,
                SnapshotSettled (RosterJson (Some [empty_obj(''userId'' := JStr ''s1'')])),
                SocketMessage ''attendance:uploaded'' (empty_obj(''userId'' := JStr ''s1'')),
                SocketMessage ''attendance:uploaded'' (empty_obj(''userId'' := JStr ''s2''))]"]
        roster_userIds_stay_distinct
          [of "[empty_obj(''userId'' := JStr ''s1'')]" "empty_obj(''userId'' := JStr ''s1'')" "[]"]
  by (simp add: userIds_def)

text \<open>
  C9: an override for a student who is not in the teacher's list is dropped: the handler
  of 'attendance:overridden' returns the list unchanged when no entry has the payload's
  userId. In every case the list keeps its length, an entry with another userId is
  unchanged, and an entry with the payload's userId differs only in its status, which is
  the payload's.
\<close>

theorem override_frame:
  "((\<forall>st\<in>set prev. st ''userId'' \<noteq> p ''userId'') \<longrightarrow> attendance_overridden p prev = prev)
   \<and> length (attendance_overridden p prev) = length prev
   \<and> (\<forall>i<length prev.
        ((prev ! i) ''userId'' \<noteq> p ''userId'' \<longrightarrow> attendance_overridden p prev ! i = prev ! i)
        \<and> ((prev ! i) ''userId'' = p ''userId'' \<longrightarrow>
             attendance_overridden p prev ! i = (prev ! i)(''status'' := p ''status'')))"
proof -
  have "(\<forall>st\<in>set prev. st ''userId'' \<noteq> p ''userId'') \<longrightarrow> attendance_overridden p prev = prev"
    by (induction prev) (simp_all add: attendance_overridden_def)
  then show ?thesis by (simp add: attendance_overridden_def)
qed

theorem override_frame_witness:
  "attendance_overridden (empty_obj(''userId'' := JStr ''s9'', ''status'' := JStr ''overridden_present''))
     [empty_obj(''userId'' := JStr ''s1'', ''status'' := JStr ''uploaded'')]
   = [empty_obj(''userId'' := JStr ''s1'', ''status'' := JStr ''uploaded'')]
   \<and> attendance_overridden (empty_obj(''userId'' := JStr ''s1'', ''status'' := JStr ''overridden_absent''))
     [empty_obj(''userId'' := JStr ''s1'', ''status'' := JStr ''uploaded''),
      empty_obj(''userId'' := JStr ''s2'', ''status'' := JStr ''uploaded'')] ! 0
   = (empty_obj(''userId'' := JStr ''s1'', ''status'' := JStr ''uploaded''))
       (''status'' := JStr ''overridden_absent'')
   \<and> attendance_overridden (empty_obj(''userId'' := JStr ''s1'', ''status'' := JStr ''overridden_absent''))
     [empty_obj(''userId'' := JStr ''s1'', ''status'' := JStr ''uploaded''),
      empty_obj(''userId'' := JStr ''s2'', ''status'' := JStr ''uploaded'')] ! 1
   = empty_obj(''userId'' := JStr ''s2'', ''status'' := JStr ''uploaded'')"
  using override_frame
          [of "[empty_obj(''userId'' := JStr ''s1'', ''status'' := JStr ''uploaded'')]"
              "empty_obj(''userId'' := JStr ''s9'', ''status'' := JStr ''overridden_present'')"]
        override_frame
          [of "[empty_obj(''userId'' := JStr ''s1'', ''status'' := JStr ''uploaded''),
                empty_obj(''userId'' := JStr ''s2'', ''status'' := JStr ''uploaded'')]"
              "empty_obj(''userId'' := JStr ''s1'', ''status'' := JStr ''overridden_absent'')"]
  by (simp add: attendance_overridden_def)

text \<open>
  C6: every session-start request that openSession sends carries the teacherId and the
  teacherName of the logged-in user, the latitude and longitude of the position just
  read, and expiryMinutes 15, which is positive.
\<close>

theorem openSession_request_complete:
  assumes "openSession_request token u g = Some req"
  shows "teacherId (body req) = userId u
    \<and> teacherName (body req) = name u
    \<and> expiryMinutes (body req) = 15
    \<and> 0 < expiryMinutes (body req)
    \<and> (\<exists>c. g = GeoPosition c \<and> lat (body req) = latitude c \<and> lon (body req) = longitude c)"
  using assms by (cases g) (auto simp: openSession_request_def)

theorem openSession_request_complete_witness:
  "openSession_request ''tok'' \<lparr>userId = ''t1'', role = ''teacher'', name = ''Bob''\<rparr>
       (GeoPosition \<lparr>latitude = 1, longitude = 2\<rparr>)
     = Some \<lparr>bearer = ''tok'',
             body = \<lparr>teacherId = ''t1'', lat = 1, lon = 2, expiryMinutes = 15,
                      teacherName = ''Bob''\<rparr>\<rparr>
   \<and> 0 < expiryMinutes (body \<lparr>bearer = ''tok'',
             body = \<lparr>teacherId = ''t1'', lat = 1, lon = 2, expiryMinutes = 15,
                      teacherName = ''Bob''\<rparr>\<rparr>)"
proof -
  have h: "openSession_request ''tok'' \<lparr>userId = ''t1'', role = ''teacher'', name = ''Bob''\<rparr>
       (GeoPosition \<lparr>latitude = 1, longitude = 2\<rparr>)
     = Some \<lparr>bearer = ''tok'',
             body = \<lparr>teacherId = ''t1'', lat = 1, lon = 2, expiryMinutes = 15,
                      teacherName = ''Bob''\<rparr>\<rparr>"
    by (simp add: openSession_request_def)
  from openSession_request_complete [OF h] h show ?thesis by simp
qed



section \<open>The socket events of the teacher client\<close>

text \<open>
  Messages named roster_updated and roster_overridden reach no listener of the teacher
  client, and a payload that carries photoRef and distanceMeters leaves photoUrl and
  distance undefined in the entry that 'attendance:uploaded' creates; its status is
  'uploaded' whatever the payload's status.
\<close>

theorem spec_event_names_counterexample:
  "socket_dispatch ''roster_updated''
     (empty_obj(''userId'' := JStr ''s1'', ''status'' := JStr ''location_checked'',
                ''photoRef'' := JStr ''p1'', ''distanceMeters'' := JNum 3)) [] = []
   \<and> socket_dispatch ''roster_overridden''
     (empty_obj(''userId'' := JStr ''s1'', ''status'' := JStr ''overridden_absent''))
     [empty_obj(''userId'' := JStr ''s1'', ''status'' := JStr ''uploaded'')]
     = [empty_obj(''userId'' := JStr ''s1'', ''status'' := JStr ''uploaded'')]
   \<and> map (\<lambda>x. (x ''userId'', x ''status'', x ''photoUrl'', x ''distance''))
        (socket_dispatch ''attendance:uploaded''
          (empty_obj(''userId'' := JStr ''s1'', ''status'' := JStr ''location_checked'',
                     ''photoRef'' := JStr ''p1'', ''distanceMeters'' := JNum 3)) [])
     = [(JStr ''s1'', JStr ''uploaded'', JUndefined, JUndefined)]"
  by (simp add: socket_dispatch_def attendance_uploaded_def empty_obj_def)

lemma uploaded_entry_present:
  "\<exists>x\<in>set (attendance_uploaded p xs).
      x ''userId'' = p ''userId'' \<and> x ''status'' = JStr ''uploaded''
      \<and> x ''photoUrl'' = p ''photoUrl'' \<and> x ''distance'' = p ''distance''"
proof (cases "findIndex (\<lambda>x. x ''userId'' = p ''userId'') xs \<ge> 0")
  case True
  let ?i = "nat (findIndex (\<lambda>x. x ''userId'' = p ''userId'') xs)"
  let ?e = "(xs ! ?i)(''status'' := JStr ''uploaded'', ''photoUrl'' := p ''photoUrl'',
                      ''distance'' := p ''distance'')"
  from findIndex_found [OF True] have lt: "?i < length xs" and uid: "(xs ! ?i) ''userId'' = p ''userId''"
    by simp_all
  have up: "attendance_uploaded p xs = xs[?i := ?e]"
    using True by (simp add: attendance_uploaded_def Let_def)
  from lt have "?e \<in> set (xs[?i := ?e])" by (rule set_update_memI)
  moreover have "?e ''userId'' = p ''userId'' \<and> ?e ''status'' = JStr ''uploaded''
      \<and> ?e ''photoUrl'' = p ''photoUrl'' \<and> ?e ''distance'' = p ''distance''"
    using uid by simp
  ultimately show ?thesis unfolding up by blast
next
  case False
  then show ?thesis by (simp add: attendance_uploaded_def Let_def empty_obj_def)
qed

text \<open>
  C4 (as the client behaves): the teacher client handles exactly two event kinds, named
  'attendance:uploaded' and 'attendance:overridden', each by its own handler; a message
  with any other name changes nothing. The upload handler depends on the payload only
  through userId, photoUrl and distance and leaves an entry with that userId, status
  'uploaded' and the payload's photoUrl and distance; the override handler depends on the
  payload only through userId and status.
\<close>

theorem teacher_socket_event_kinds:
  "(ev \<noteq> ''attendance:uploaded'' \<and> ev \<noteq> ''attendance:overridden'' \<longrightarrow>
      socket_dispatch ev p xs = xs)
   \<and> socket_dispatch ''attendance:uploaded'' p xs = attendance_uploaded p xs
   \<and> socket_dispatch ''attendance:overridden'' p xs = attendance_overridden p xs
   \<and> (p ''userId'' = q ''userId'' \<and> p ''photoUrl'' = q ''photoUrl''
        \<and> p ''distance'' = q ''distance'' \<longrightarrow>
        attendance_uploaded p xs = attendance_uploaded q xs)
   \<and> (p ''userId'' = q ''userId'' \<and> p ''status'' = q ''status'' \<longrightarrow>
        attendance_overridden p xs = attendance_overridden q xs)
   \<and> (\<exists>x\<in>set (attendance_uploaded p xs).
        x ''userId'' = p ''userId'' \<and> x ''status'' = JStr ''uploaded''
        \<and> x ''photoUrl'' = p ''photoUrl'' \<and> x ''distance'' = p ''distance'')"
proof -
  have d: "(ev \<noteq> ''attendance:uploaded'' \<and> ev \<noteq> ''attendance:overridden'' \<longrightarrow>
      socket_dispatch ev p xs = xs)
   \<and> socket_dispatch ''attendance:uploaded'' p xs = attendance_uploaded p xs
   \<and> socket_dispatch ''attendance:overridden'' p xs = attendance_overridden p xs"
    by (simp add: socket_dispatch_def)
  have u: "p ''userId'' = q ''userId'' \<and> p ''photoUrl'' = q ''photoUrl''
        \<and> p ''distance'' = q ''distance'' \<longrightarrow>
        attendance_uploaded p xs = attendance_uploaded q xs"
    by (simp add: attendance_uploaded_def Let_def)
  have v: "p ''userId'' = q ''userId'' \<and> p ''status'' = q ''status'' \<longrightarrow>
        attendance_overridden p xs = attendance_overridden q xs"
    by (simp add: attendance_overridden_def)
  show ?thesis using d u v uploaded_entry_present [of p xs] by blast
qed

theorem teacher_socket_event_kinds_witness:
  "socket_dispatch ''roster_updated'' (empty_obj(''userId'' := JStr ''s1'')) [] = []
   \<and> userIds (socket_dispatch ''attendance:uploaded'' (empty_obj(''userId'' := JStr ''s1'')) [])
       = [JStr ''s1'']
   \<and> attendance_uploaded (empty_obj(''userId'' := JStr ''s1'', ''status'' := JStr ''a'')) []
       = attendance_uploaded (empty_obj(''userId'' := JStr ''s1'', ''status'' := JStr ''b'')) []
   \<and> attendance_overridden (empty_obj(''userId'' := JStr ''s1'', ''photoUrl'' := JStr ''a'')) []
       = attendance_overridden (empty_obj(''userId'' := JStr ''s1'', ''photoUrl'' := JStr ''b'')) []"
  using teacher_socket_event_kinds
          [of "''roster_updated''" "empty_obj(''userId'' := JStr ''s1'')" "[]"
              "empty_obj(''userId'' := JStr ''s1'')"]
        teacher_socket_event_kinds
          [of "''x''" "empty_obj(''userId'' := JStr ''s1'', ''status'' := JStr ''a'')" "[]"
              "empty_obj(''userId'' := JStr ''s1'', ''status'' := JStr ''b'')"]
        teacher_socket_event_kinds
          [of "''x''" "empty_obj(''userId'' := JStr ''s1'', ''photoUrl'' := JStr ''a'')" "[]"
              "empty_obj(''userId'' := JStr ''s1'', ''photoUrl'' := JStr ''b'')"]
  by (simp add: userIds_def attendance_uploaded_def empty_obj_def)

section \<open>Snapshot and subscription in openSession\<close>

text \<open>
  The session is set, the effect subscribes, an upload event adds a student, and then the
  snapshot response arrives with an empty roster: the student that the event added is gone.
\<close>

theorem snapshot_overwrites_event_counterexample:
  "userIds (students (teacher_run TeacherView_init
      [StartSettled (Json (empty_obj(''sessionId'' := JStr ''sess_1''))),
       EffectRuns,
       SocketMessage ''attendance:uploaded'' (empty_obj(''userId'' := JStr ''s1''))]))
     = [JStr ''s1'']
   \<and> students (teacher_run TeacherView_init
      [StartSettled (Json (empty_obj(''sessionId'' := JStr ''sess_1''))),
       EffectRuns,
       SocketMessage ''attendance:uploaded'' (empty_obj(''userId'' := JStr ''s1'')),
       SnapshotSettled (RosterJson (Some []))]) = []"
  by (simp add: teacher_run_def teacher_step_def openSession_started_def session_effect_def
      socket_message_def socket_dispatch_def attendance_uploaded_def openSession_snapshot_def
      TeacherView_init_def userIds_def)

lemma socket_messages_fold:
  "socket tv \<Longrightarrow>
   teacher_run tv (map (\<lambda>(ev, p). SocketMessage ev p) msgs)
     = tv\<lparr>students := foldl (\<lambda>xs (ev, p). socket_dispatch ev p xs) (students tv) msgs\<rparr>"
proof (induction msgs arbitrary: tv)
  case Nil
  then show ?case by (simp add: teacher_run_def)
next
  case (Cons m msgs)
  obtain ev p where m: "m = (ev, p)" by (cases m)
  let ?tv = "tv\<lparr>students := socket_dispatch ev p (students tv)\<rparr>"
  have s: "teacher_step tv (SocketMessage ev p) = ?tv"
    using Cons.prems by (simp add: teacher_step_def socket_message_def)
  have "teacher_run tv (map (\<lambda>(ev, p). SocketMessage ev p) (m # msgs))
      = teacher_run ?tv (map (\<lambda>(ev, p). SocketMessage ev p) msgs)"
    using s by (simp add: teacher_run_def m)
  also have "\<dots> = ?tv\<lparr>students := foldl (\<lambda>xs (ev, p). socket_dispatch ev p xs) (students ?tv) msgs\<rparr>"
    using Cons.prems by (intro Cons.IH) simp
  finally show ?case by (simp add: m)
qed

text \<open>
  C3 (as the client behaves): when the snapshot response arrives it replaces the students
  list, whatever the list held; every socket message delivered after it is applied, in
  order, on top of the snapshot, so none of them is overwritten by it. openSession sets
  the session, after which the effect subscribes, in the same step in which it sends the
  snapshot request, and that step does not touch the students list.
\<close>

theorem snapshot_replaces_then_events_apply:
  "students (teacher_step tv (SnapshotSettled (RosterJson tvs)))
     = (case tvs of Some xs \<Rightarrow> xs | None \<Rightarrow> [])
   \<and> (socket tv \<longrightarrow>
        students (teacher_run (teacher_step tv (SnapshotSettled (RosterJson tvs)))
                   (map (\<lambda>(ev, p). SocketMessage ev p) msgs))
          = foldl (\<lambda>xs (ev, p). socket_dispatch ev p xs)
              (case tvs of Some xs \<Rightarrow> xs | None \<Rightarrow> []) msgs)
   \<and> socket (session_effect (fst (openSession_started (Json data) tv)))
   \<and> snd (openSession_started (Json data) tv) = Some (TeacherViewGet (data ''sessionId''))
   \<and> students (fst (openSession_started (Json data) tv)) = students tv"
proof -
  let ?tv = "teacher_step tv (SnapshotSettled (RosterJson tvs))"
  have a: "students ?tv = (case tvs of Some xs \<Rightarrow> xs | None \<Rightarrow> [])"
    by (simp add: teacher_step_def openSession_snapshot_def)
  have sk: "socket ?tv = socket tv"
    by (simp add: teacher_step_def openSession_snapshot_def)
  have b: "socket tv \<Longrightarrow>
        students (teacher_run ?tv (map (\<lambda>(ev, p). SocketMessage ev p) msgs))
          = foldl (\<lambda>xs (ev, p). socket_dispatch ev p xs)
              (case tvs of Some xs \<Rightarrow> xs | None \<Rightarrow> []) msgs"
    using socket_messages_fold [of ?tv msgs] sk a by simp
  have c: "socket (session_effect (fst (openSession_started (Json data) tv)))
   \<and> snd (openSession_started (Json data) tv) = Some (TeacherViewGet (data ''sessionId''))
   \<and> students (fst (openSession_started (Json data) tv)) = students tv"
    by (simp add: openSession_started_def session_effect_def)
  show ?thesis using a b c by blast
qed

theorem snapshot_replaces_then_events_apply_witness:
  "socket (teacher_run TeacherView_init
      [StartSettled (Json (empty_obj(''sessionId'' := JStr ''sess_1''))), EffectRuns])
   \<and> userIds (students (teacher_run
        (teacher_step
           (teacher_run TeacherView_init
              [StartSettled (Json (empty_obj(''sessionId'' := JStr ''sess_1''))), EffectRuns])
           (SnapshotSettled (RosterJson (Some [empty_obj(''userId'' := JStr ''s1'')]))))
        (map (\<lambda>(ev, p). SocketMessage ev p)
           [(''attendance:uploaded'', empty_obj(''userId'' := JStr ''s2''))])))
     = [JStr ''s2'', JStr ''s1'']"
proof -
  have h: "socket (teacher_run TeacherView_init
      [StartSettled (Json (empty_obj(''sessionId'' := JStr ''sess_1''))), EffectRuns])"
    by (simp add: teacher_run_def teacher_step_def openSession_started_def session_effect_def
        TeacherView_init_def)
  from snapshot_replaces_then_events_apply
         [of "teacher_run TeacherView_init
                [StartSettled (Json (empty_obj(''sessionId'' := JStr ''sess_1''))), EffectRuns]"
             "Some [empty_obj(''userId'' := JStr ''s1'')]"
             "[(''attendance:uploaded'', empty_obj(''userId'' := JStr ''s2''))]"] h
  show ?thesis
    by (simp add: socket_dispatch_def attendance_uploaded_def userIds_def)
qed

end
